theory Spec2Isabelle
  imports Complex_Main "HOL-Library.AList" "HOL-Library.Sublist"
begin

section \<open>Python values\<close>

text \<open>
  The values that flow through \<^verbatim>\<open>discord/http.py\<close> are duck-typed. A route parameter is
  \<^verbatim>\<open>None\<close>, an integer (a snowflake id), a string, or an object that is only ever read
  through its attributes (\<^verbatim>\<open>channel.id\<close>, \<^verbatim>\<open>channel.guild.id\<close>). An object is
  modelled by the list of its attributes.
\<close>

datatype pyval =
    PyNone
  | PyInt int
  | PyStr string
  | PyObj "(string \<times> pyval) list"

text \<open>
  JSON values as \<^verbatim>\<open>json.loads\<close> returns them. Python floats are idealised as rationals;
  the pairs of \<open>JObj\<close> are the items of the decoded \<^verbatim>\<open>dict\<close> (distinct keys).
\<close>

datatype json =
    JNull
  | JBool bool
  | JNum rat
  | JStr string
  | JArr "json list"
  | JObj "(string \<times> json) list"

text \<open>What \<^verbatim>\<open>json_or_text\<close> returns: decoded JSON or the raw text.\<close>

datatype payload = Json json | Text string

record response =
  status :: int
  headers :: "(string \<times> string) list"
  body :: string

text \<open>
  Exceptions are values. \<open>HTTPException\<close>, \<open>Forbidden\<close> and \<open>NotFound\<close> carry the response
  and the decoded body they are raised with; \<open>TransportError\<close> stands for whatever the HTTP
  session itself raises (an \<^verbatim>\<open>aiohttp\<close> exception); the others are Python's builtin exceptions.
  \<open>Unsupported\<close> is not a Python exception: it marks a template that uses a replacement-field
  form outside the model of \<^verbatim>\<open>str.format\<close> below.
\<close>

datatype error =
    HTTPException response payload
  | Forbidden response payload
  | NotFound response payload
  | LoginFailure string
  | TransportError string
  | KeyError string
  | AttributeError string
  | NameError string
  | IndexError
  | ValueError
  | TypeError
  | Unsupported

subsection \<open>\<^verbatim>\<open>str()\<close> of a value\<close>

definition digit_char :: "nat \<Rightarrow> char" where
  "digit_char d = char_of (48 + d)"

function show_nat :: "nat \<Rightarrow> string" where
  "show_nat n = (if n < 10 then [digit_char n] else show_nat (n div 10) @ [digit_char (n mod 10)])"
  by pat_completeness auto
termination
  by (relation "measure id") auto

definition show_int :: "int \<Rightarrow> string" where
  "show_int i = (if i < 0 then CHR ''-'' # show_nat (nat (- i)) else show_nat (nat i))"

text \<open>
  \<^verbatim>\<open>str(v)\<close>, which is also what an empty format specification and an f-string produce.
  The default text of an arbitrary object (its type name and address) is not modelled and
  stands as a fixed placeholder.
\<close>

fun py_str :: "pyval \<Rightarrow> string" where
  "py_str PyNone = ''None''"
| "py_str (PyInt i) = show_int i"
| "py_str (PyStr s) = s"
| "py_str (PyObj attrs) = ''<object>''"

text \<open>
  Attribute access. Of the values above only objects carry the attributes the source reads
  (\<^verbatim>\<open>id\<close>, \<^verbatim>\<open>guild\<close>); on \<^verbatim>\<open>None\<close>, integers and strings the access raises.
\<close>

fun getattr :: "pyval \<Rightarrow> string \<Rightarrow> error + pyval" where
  "getattr (PyObj attrs) name =
     (case map_of attrs name of None \<Rightarrow> Inl (AttributeError name) | Some v \<Rightarrow> Inr v)"
| "getattr v name = Inl (AttributeError name)"

subsection \<open>\<^verbatim>\<open>urllib.parse.quote\<close>\<close>

definition hex_char :: "nat \<Rightarrow> char" where
  "hex_char d = (if d < 10 then char_of (48 + d) else char_of (55 + d))"

definition unreserved :: "char \<Rightarrow> bool" where
  "unreserved c =
     (let n = (of_char c :: nat) in
        (65 \<le> n \<and> n \<le> 90) \<or> (97 \<le> n \<and> n \<le> 122) \<or> (48 \<le> n \<and> n \<le> 57)
        \<or> c \<in> set ''_.-~'')"

text \<open>
  Percent-encoding of a string given as its UTF-8 bytes: unreserved characters and those in
  \<open>safe\<close> are kept, every other byte becomes \<^verbatim>\<open>%XX\<close>.
\<close>

definition uriquote :: "string \<Rightarrow> string \<Rightarrow> string" where
  "uriquote safe s =
     concat (map (\<lambda>c. if unreserved c \<or> c \<in> set safe then [c]
                      else [CHR ''%'', hex_char (of_char c div 16), hex_char (of_char c mod 16)]) s)"

subsection \<open>\<^verbatim>\<open>str.format\<close> with keyword arguments\<close>

text \<open>
  The templates of this file use replacement fields of the form \<^verbatim>\<open>{name}\<close> and
  \<^verbatim>\<open>{name.attr}\<close> only. The model covers literal text, the escapes \<^verbatim>\<open>{{\<close> and
  \<^verbatim>\<open>}}\<close>, and fields that are a keyword followed by attribute accesses. A field with a
  conversion, a format specification or an index is \<open>Unsupported\<close>.
\<close>

fun split_dots :: "string \<Rightarrow> string \<Rightarrow> string list" where
  "split_dots acc [] = [rev acc]"
| "split_dots acc (c # cs) =
     (if c = CHR ''.'' then rev acc # split_dots [] cs else split_dots (c # acc) cs)"

fun getattrs :: "pyval \<Rightarrow> string list \<Rightarrow> error + pyval" where
  "getattrs v [] = Inr v"
| "getattrs v (a # as) = (case getattr v a of Inl e \<Rightarrow> Inl e | Inr w \<Rightarrow> getattrs w as)"

definition is_digit :: "char \<Rightarrow> bool" where
  "is_digit c = (48 \<le> (of_char c :: nat) \<and> (of_char c :: nat) \<le> 57)"

definition field_value :: "(string \<times> pyval) list \<Rightarrow> string \<Rightarrow> error + pyval" where
  "field_value kwargs field =
     (if \<exists>c \<in> set field. c \<in> set ''!:[]'' then Inl Unsupported
      else case split_dots [] field of
          [] \<Rightarrow> Inl ValueError
        | name # attrs \<Rightarrow>
            if list_all is_digit name then Inl IndexError
            else if list_ex (\<lambda>a. a = []) attrs then Inl ValueError
            else (case map_of kwargs name of
                    None \<Rightarrow> Inl (KeyError name)
                  | Some v \<Rightarrow> getattrs v attrs))"

text \<open>
  The scanner: its second argument is \<open>None\<close> in literal text and holds the (reversed) field name read
  so far inside a replacement field. There are no positional arguments, so an empty or
  numeric field name raises \<^verbatim>\<open>IndexError\<close>.
\<close>

fun py_format :: "(string \<times> pyval) list \<Rightarrow> string option \<Rightarrow> string \<Rightarrow> error + string" where
  "py_format kwargs None [] = Inr []"
| "py_format kwargs (Some f) [] = Inl ValueError"
| "py_format kwargs (Some f) (c # cs) =
     (if c = CHR ''}'' then
        (case field_value kwargs (rev f) of
           Inl e \<Rightarrow> Inl e
         | Inr v \<Rightarrow> (case py_format kwargs None cs of
                       Inl e \<Rightarrow> Inl e
                     | Inr out \<Rightarrow> Inr (py_str v @ out)))
      else if c = CHR ''{'' then Inl ValueError
      else py_format kwargs (Some (c # f)) cs)"
| "py_format kwargs None [c] =
     (if c = CHR ''{'' \<or> c = CHR ''}'' then Inl ValueError else Inr [c])"
| "py_format kwargs None (c # d # cs) =
     (if c = CHR ''{'' then
        (if d = CHR ''{'' then
           (case py_format kwargs None cs of Inl e \<Rightarrow> Inl e | Inr out \<Rightarrow> Inr (CHR ''{'' # out))
         else py_format kwargs (Some []) (d # cs))
      else if c = CHR ''}'' then
        (if d = CHR ''}'' then
           (case py_format kwargs None cs of Inl e \<Rightarrow> Inl e | Inr out \<Rightarrow> Inr (CHR ''}'' # out))
         else Inl ValueError)
      else (case py_format kwargs None (d # cs) of Inl e \<Rightarrow> Inl e | Inr out \<Rightarrow> Inr (c # out)))"

section \<open>Route\<close>

record route =
  path :: string
  "method" :: string
  url :: string
  channel :: pyval
  channel_id :: pyval
  guild_id :: pyval

definition BASE :: string where
  "BASE = ''https://discordapp.com/api/v7''"

text \<open>\<^verbatim>\<open>dict.get(key)\<close>: the value, or \<^verbatim>\<open>None\<close> when the key is absent.\<close>

definition dict_get :: "(string \<times> pyval) list \<Rightarrow> string \<Rightarrow> pyval" where
  "dict_get d k = (case map_of d k of None \<Rightarrow> PyNone | Some v \<Rightarrow> v)"

text \<open>
  \<^verbatim>\<open>Route.__init__(method, path, **parameters)\<close>. The keyword arguments are an association
  list with distinct keys. The \<^verbatim>\<open>try\<close> block stores \<^verbatim>\<open>channel.id\<close> under
  \<^verbatim>\<open>channel_id\<close> when the access succeeds and is skipped otherwise; a failing
  \<^verbatim>\<open>format\<close> makes the constructor raise.
\<close>

definition Route_init :: "string \<Rightarrow> string \<Rightarrow> (string \<times> pyval) list \<Rightarrow> error + route" where
  "Route_init meth pth parameters0 =
     (let url0 = BASE @ pth;
          parameters =
            (case getattr (dict_get parameters0 ''channel'') ''id'' of
               Inl e \<Rightarrow> parameters0
             | Inr i \<Rightarrow> AList.update ''channel_id'' i parameters0);
          resolved =
            (if parameters \<noteq> [] then
               py_format
                 (map (\<lambda>(k, v). (k, case v of PyStr s \<Rightarrow> PyStr (uriquote ''/'' s) | _ \<Rightarrow> v)) parameters)
                 None url0
             else Inr url0)
      in case resolved of
           Inl e \<Rightarrow> Inl e
         | Inr u \<Rightarrow>
             Inr \<lparr> path = pth, method = meth, url = u,
                   channel = dict_get parameters ''channel'',
                   channel_id = dict_get parameters ''channel_id'',
                   guild_id = dict_get parameters ''guild_id'' \<rparr>)"

text \<open>The property \<^verbatim>\<open>Route.bucket\<close>: \<^verbatim>\<open>'{0.method}:{0.channel_id}:{0.guild_id}:{0.path}'.format(self)\<close>.\<close>

definition bucket :: "route \<Rightarrow> string" where
  "bucket r = method r @ '':'' @ py_str (channel_id r) @ '':'' @ py_str (guild_id r) @ '':'' @ path r"


section \<open>HTTPClient\<close>

subsection \<open>Responses and their decoding\<close>

text \<open>
  What one call of \<^verbatim>\<open>self._session.request\<close> gives: the session raises, or a response
  arrives. Header names are spelled as the source spells them.
\<close>

datatype reply = Failed string | Reply response

text \<open>
  Functions of other modules that \<^verbatim>\<open>request\<close> calls: \<^verbatim>\<open>json.loads\<close> (\<open>None\<close> when
  it raises) and \<^verbatim>\<open>utils._parse_ratelimit_header\<close>, the delay in seconds read from the
  reset-time header of a response.
\<close>

record lib =
  loads :: "string \<Rightarrow> json option"
  parse_ratelimit_header :: "response \<Rightarrow> rat"

text \<open>\<^verbatim>\<open>json_or_text(response)\<close>; \<^verbatim>\<open>response.headers['content-type']\<close> raises when the header is absent.\<close>

definition json_or_text :: "lib \<Rightarrow> response \<Rightarrow> error + payload" where
  "json_or_text l response =
     (let txt = body response in
        case map_of (headers response) ''content-type'' of
          None \<Rightarrow> Inl (KeyError ''content-type'')
        | Some ct \<Rightarrow>
            if ct = ''application/json'' then
              (case loads l txt of None \<Rightarrow> Inl ValueError | Some j \<Rightarrow> Inr (Json j))
            else Inr (Text txt))"

text \<open>\<^verbatim>\<open>data['retry_after'] / 1000.0\<close>: only a \<^verbatim>\<open>dict\<close> with a numeric entry yields a number.\<close>

definition retry_after_of :: "payload \<Rightarrow> error + rat" where
  "retry_after_of data =
     (case data of
        Json (JObj items) \<Rightarrow>
          (case map_of items ''retry_after'' of
             None \<Rightarrow> Inl (KeyError ''retry_after'')
           | Some (JNum q) \<Rightarrow> Inr (q / 1000)
           | Some (JBool b) \<Rightarrow> Inr ((if b then 1 else 0) / 1000)
           | Some _ \<Rightarrow> Inl TypeError)
      | _ \<Rightarrow> Inl TypeError)"

text \<open>Python's truth value of a decoded JSON value.\<close>

fun truthy :: "json \<Rightarrow> bool" where
  "truthy JNull = False"
| "truthy (JBool b) = b"
| "truthy (JNum q) = (q \<noteq> 0)"
| "truthy (JStr s) = (s \<noteq> [])"
| "truthy (JArr xs) = (xs \<noteq> [])"
| "truthy (JObj items) = (items \<noteq> [])"

text \<open>\<^verbatim>\<open>data.get('global', False)\<close>, taken as a condition.\<close>

definition is_global_of :: "payload \<Rightarrow> error + bool" where
  "is_global_of data =
     (case data of
        Json (JObj items) \<Rightarrow>
          (case map_of items ''global'' of None \<Rightarrow> Inr False | Some v \<Rightarrow> Inr (truthy v))
      | _ \<Rightarrow> Inl (AttributeError ''get''))"

subsection \<open>Effects\<close>

text \<open>
  The effects of one call of \<^verbatim>\<open>request\<close>, in the order in which the coroutine performs
  them. Locks are named by their bucket key. \<open>WaitGlobal\<close> and \<open>Acquire\<close> are the two
  suspension points before the first attempt; \<open>CallLater delta b\<close> is
  \<^verbatim>\<open>self.loop.call_later(delta, lock.release)\<close>; \<open>ReleaseLock\<close> is the release done by
  \<^verbatim>\<open>MaybeUnlock.__exit__\<close>; \<open>ReleaseResponse\<close> is \<^verbatim>\<open>r.release()\<close>.
\<close>

datatype event =
    WaitGlobal
  | Acquire string
  | Send string string "(string \<times> string) list"
  | CallLater rat string
  | ClearGlobal
  | SetGlobal
  | Sleep rat
  | ReleaseResponse
  | ReleaseLock string

record client =
  token :: "string option"
  bot_token :: bool
  ack_token :: "pyval option"
  global_over :: bool
  locks :: "string list"

text \<open>
  The state a call threads through its attempts: the event \<^verbatim>\<open>_global_over\<close>, the flag
  \<^verbatim>\<open>_unlock\<close> of the \<^verbatim>\<open>MaybeUnlock\<close> guard, and the effects so far.
\<close>

record run =
  over :: bool
  unlock :: bool
  events :: "event list"

definition emit :: "event \<Rightarrow> run \<Rightarrow> run" where
  "emit e s = s\<lparr>events := events s @ [e]\<rparr>"

text \<open>\<^verbatim>\<open>MaybeUnlock.defer\<close> and \<^verbatim>\<open>MaybeUnlock.__exit__\<close> for the lock of bucket \<open>b\<close>.\<close>

definition MaybeUnlock_defer :: "run \<Rightarrow> run" where
  "MaybeUnlock_defer s = s\<lparr>unlock := False\<rparr>"

definition MaybeUnlock_exit :: "string \<Rightarrow> run \<Rightarrow> run" where
  "MaybeUnlock_exit b s = (if unlock s then emit (ReleaseLock b) s else s)"

subsection \<open>Header creation\<close>

definition USER_AGENT :: string where
  "USER_AGENT = ''Mozilla/5.0 (Windows NT 10.0; WOW64) AppleWebKit/537.36 (KHTML, like Gecko) discord/0.0.179 Chrome/58.0.3029.110 Discord Canary/1.7.9 Safari/537.36''"

definition SUPER_PROPERTIES :: string where
  "SUPER_PROPERTIES = ''eyJvcyI6IldpbmRvd3MiLCJicm93c2VyIjoiRGlzY29yZCBDbGllbnQiLCJyZWxlYXNlX2NoYW5uZWwiOiJjYW5hcnkiLCJjbGllbnRfdmVyc2lvbiI6IjAuMC4xNzkiLCJvc192ZXJzaW9uIjoiMTAuMC4xNTA2MyJ9''"

definition header_dict :: "string \<Rightarrow> (string \<times> string) list" where
  "header_dict ref =
     [(''User-Agent'', USER_AGENT), (''referer'', ref), (''x-super-properties'', SUPER_PROPERTIES)]"

text \<open>
  The name \<^verbatim>\<open>guild\<close> is bound neither in \<^verbatim>\<open>request\<close> nor at module level, so reading it
  raises \<^verbatim>\<open>NameError\<close>.
\<close>

definition guild_name :: "error + pyval" where
  "guild_name = Inl (NameError ''guild'')"

text \<open>The three nested \<^verbatim>\<open>try\<close> blocks; a bare \<^verbatim>\<open>except\<close> catches every error.\<close>

definition create_headers :: "pyval \<Rightarrow> (string \<times> string) list" where
  "create_headers chan =
     (case (case getattr chan ''guild'' of
              Inl e \<Rightarrow> Inl e
            | Inr g \<Rightarrow>
               (case getattr g ''id'' of
                  Inl e \<Rightarrow> Inl e
                | Inr gid \<Rightarrow>
                   (case getattr chan ''id'' of
                      Inl e \<Rightarrow> Inl e
                    | Inr cid \<Rightarrow>
                       Inr (header_dict (''https://canary.discordapp.com/channels/''
                                          @ py_str gid @ ''/'' @ py_str cid))))) of
        Inr h \<Rightarrow> h
      | Inl e1 \<Rightarrow>
         (case (case guild_name of
                  Inl e \<Rightarrow> Inl e
                | Inr g \<Rightarrow>
                   (case getattr g ''id'' of
                      Inl e \<Rightarrow> Inl e
                    | Inr gid \<Rightarrow>
                       Inr (header_dict (''https://canary.discordapp.com/channels/'' @ py_str gid)))) of
            Inr h \<Rightarrow> h
          | Inl e2 \<Rightarrow> header_dict ''https://canary.discordapp.com/channels/@me''))"

text \<open>
  The keyword arguments of \<^verbatim>\<open>request\<close> that decide headers: \<^verbatim>\<open>json\<close> (absent or a
  value) and \<^verbatim>\<open>reason\<close> (\<open>None\<close> when absent or \<^verbatim>\<open>None\<close>). The others are passed to the
  session as they are.
\<close>

record kwargs =
  kw_json :: "json option"
  kw_reason :: "string option"

definition request_headers :: "client \<Rightarrow> pyval \<Rightarrow> kwargs \<Rightarrow> (string \<times> string) list" where
  "request_headers c chan kw =
     (let h0 = create_headers chan;
          h1 = (case token c of
                  None \<Rightarrow> h0
                | Some t \<Rightarrow> AList.update ''Authorization'' (if bot_token c then ''Bot '' @ t else t) h0);
          h2 = (case kw_json kw of
                  None \<Rightarrow> h1
                | Some j \<Rightarrow> AList.update ''Content-Type'' ''application/json'' h1);
          h3 = (case kw_reason kw of
                  None \<Rightarrow> h2
                | Some reason \<Rightarrow>
                    if reason \<noteq> [] then AList.update ''X-Audit-Log-Reason'' (uriquote ''/ '' reason) h2
                    else h2)
      in h3)"

subsection \<open>One attempt\<close>

text \<open>
  The body of the \<^verbatim>\<open>for\<close> loop. An attempt either leaves the loop (\<open>Return\<close>: a returned
  payload or a raised error) or reaches \<^verbatim>\<open>continue\<close> with the response and the decoded
  body of this attempt. The \<^verbatim>\<open>finally\<close> clause releases the response on every path on
  which a response arrived.
\<close>

datatype outcome = Return "error + payload" | Continue response payload

definition attempt ::
  "lib \<Rightarrow> string \<Rightarrow> string \<Rightarrow> string \<Rightarrow> (string \<times> string) list \<Rightarrow> rat option
     \<Rightarrow> nat \<Rightarrow> reply \<Rightarrow> run \<Rightarrow> run \<times> outcome" where
  "attempt l bkt meth u hdrs header_bypass_delay tries rep s =
     (case rep of
        Failed e \<Rightarrow> (emit (Send meth u hdrs) s, Return (Inl (TransportError e)))
      | Reply r \<Rightarrow>
         (let s0 = emit (Send meth u hdrs) s in
          case json_or_text l r of
            Inl e \<Rightarrow> (emit ReleaseResponse s0, Return (Inl e))
          | Inr data \<Rightarrow>
             (let remaining = map_of (headers r) ''X-Ratelimit-Remaining'';
                  s1 = (if remaining = Some ''0'' \<and> status r \<noteq> 429 then
                          (let delta = (case header_bypass_delay of
                                          None \<Rightarrow> parse_ratelimit_header l r
                                        | Some d \<Rightarrow> d)
                           in emit (CallLater delta bkt) (MaybeUnlock_defer s0))
                        else s0)
              in if 300 > status r \<and> status r \<ge> 200 then
                   (emit ReleaseResponse s1, Return (Inr data))
                 else if status r = 429 then
                   (case retry_after_of data of
                      Inl e \<Rightarrow> (emit ReleaseResponse s1, Return (Inl e))
                    | Inr retry_after \<Rightarrow>
                       (case is_global_of data of
                          Inl e \<Rightarrow> (emit ReleaseResponse s1, Return (Inl e))
                        | Inr is_global \<Rightarrow>
                           (let s2 = (if is_global then emit ClearGlobal (s1\<lparr>over := False\<rparr>) else s1);
                                s3 = emit (Sleep retry_after) s2;
                                s4 = (if is_global then emit SetGlobal (s3\<lparr>over := True\<rparr>) else s3)
                            in (emit ReleaseResponse s4, Continue r data))))
                 else if status r \<in> {500, 502} then
                   (emit ReleaseResponse (emit (Sleep (1 + of_nat tries * 2)) s1), Continue r data)
                 else if status r = 403 then
                   (emit ReleaseResponse s1, Return (Inl (Forbidden r data)))
                 else if status r = 404 then
                   (emit ReleaseResponse s1, Return (Inl (NotFound r data)))
                 else (emit ReleaseResponse s1, Return (Inl (HTTPException r data))))))"

subsection \<open>The retry loop and \<^verbatim>\<open>request\<close>\<close>

text \<open>
  \<^verbatim>\<open>for tries in range(5)\<close>, followed by the \<^verbatim>\<open>raise\<close> after the loop. The server is a
  function from the attempt index to what that attempt receives. \<open>prev\<close> holds the variables
  \<^verbatim>\<open>r\<close> and \<^verbatim>\<open>data\<close>, unbound before the first attempt.
\<close>

fun for_tries ::
  "lib \<Rightarrow> string \<Rightarrow> string \<Rightarrow> string \<Rightarrow> (string \<times> string) list \<Rightarrow> rat option
     \<Rightarrow> (nat \<Rightarrow> reply) \<Rightarrow> nat list \<Rightarrow> (response \<times> payload) option \<Rightarrow> run
     \<Rightarrow> run \<times> (error + payload)" where
  "for_tries l bkt meth u hdrs bypass srv [] prev s =
     (case prev of
        None \<Rightarrow> (s, Inl (NameError ''r''))
      | Some (r, data) \<Rightarrow> (s, Inl (HTTPException r data)))"
| "for_tries l bkt meth u hdrs bypass srv (tries # rest) prev s =
     (case attempt l bkt meth u hdrs bypass tries (srv tries) s of
        (s', Return res) \<Rightarrow> (s', res)
      | (s', Continue r data) \<Rightarrow> for_tries l bkt meth u hdrs bypass srv rest (Some (r, data)) s')"

text \<open>
  \<^verbatim>\<open>HTTPClient.request(route, header_bypass_delay=..., **kwargs)\<close>. The result is the
  client afterwards, the effects of the call, and the payload returned or the error raised.
  The wait on \<^verbatim>\<open>_global_over\<close> happens only when the event is not set, and returns once it
  is set.
\<close>

definition request ::
  "lib \<Rightarrow> client \<Rightarrow> route \<Rightarrow> rat option \<Rightarrow> kwargs \<Rightarrow> (nat \<Rightarrow> reply)
     \<Rightarrow> client \<times> event list \<times> (error + payload)" where
  "request l c rt header_bypass_delay kw srv =
     (let bkt = bucket rt;
          meth = method rt;
          u = url rt;
          chan = channel rt;
          c1 = (if bkt \<in> set (locks c) then c else c\<lparr>locks := locks c @ [bkt]\<rparr>);
          hdrs = request_headers c1 chan kw;
          s0 = \<lparr>over = True, unlock = True,
                events = (if \<not> global_over c1 then [WaitGlobal] else []) @ [Acquire bkt]\<rparr>;
          (s1, res) = for_tries l bkt meth u hdrs header_bypass_delay srv [0..<5] None s0;
          s2 = MaybeUnlock_exit bkt s1
      in (c1\<lparr>global_over := over s2\<rparr>, events s2, res))"

subsection \<open>Login\<close>

text \<open>The method \<^verbatim>\<open>_token(token, bot=...)\<close>.\<close>

definition HTTPClient_token :: "client \<Rightarrow> string option \<Rightarrow> bool \<Rightarrow> client" where
  "HTTPClient_token c tok is_bot = c\<lparr>token := tok, bot_token := is_bot, ack_token := Some PyNone\<rparr>"

text \<open>
  The attribute \<^verbatim>\<open>response\<close> of an error, present exactly on what
  \<^verbatim>\<open>except HTTPException\<close> catches: in \<^verbatim>\<open>discord/errors.py\<close> the classes
  \<^verbatim>\<open>Forbidden\<close> and \<^verbatim>\<open>NotFound\<close> derive from \<^verbatim>\<open>HTTPException\<close>, and no other
  error of this model does.
\<close>

fun error_response :: "error \<Rightarrow> response option" where
  "error_response (HTTPException r d) = Some r"
| "error_response (Forbidden r d) = Some r"
| "error_response (NotFound r d) = Some r"
| "error_response e = None"

definition no_kwargs :: kwargs where
  "no_kwargs = \<lparr>kw_json = None, kw_reason = None\<rparr>"

text \<open>
  \<^verbatim>\<open>HTTPClient.static_login(token, bot=...)\<close>. The \<^verbatim>\<open>except\<close> clause restores the old
  credential; an error it does not catch propagates from the \<^verbatim>\<open>try\<close> block as it is.
\<close>

definition static_login ::
  "lib \<Rightarrow> client \<Rightarrow> string \<Rightarrow> bool \<Rightarrow> (nat \<Rightarrow> reply) \<Rightarrow> client \<times> event list \<times> (error + payload)" where
  "static_login l c tok is_bot srv =
     (let old_token = token c;
          old_bot = bot_token c;
          c1 = HTTPClient_token c (Some tok) is_bot
      in case Route_init ''GET'' ''/users/@me'' [] of
           Inl e \<Rightarrow> (c1, [], Inl e)
         | Inr rt \<Rightarrow>
            (let (c2, evs, res) = request l c1 rt None no_kwargs srv
             in case res of
                  Inr data \<Rightarrow> (c2, evs, Inr data)
                | Inl e \<Rightarrow>
                   (case error_response e of
                      Some r \<Rightarrow>
                        (let c3 = HTTPClient_token c2 old_token old_bot
                         in if status r = 401 then
                              (c3, evs, Inl (LoginFailure ''Improper token has been passed.''))
                            else (c3, evs, Inl e))
                    | None \<Rightarrow> (c2, evs, Inl e))))"


section \<open>Auxiliary notions for the statements\<close>

text \<open>Reading a decimal numeral back; the left inverse of \<open>show_nat\<close>.\<close>

definition read_nat :: "string \<Rightarrow> nat" where
  "read_nat s = foldl (\<lambda>a c. 10 * a + (of_char c - 48)) 0 s"

text \<open>A major parameter that is absent (\<^verbatim>\<open>None\<close>) or an integer id.\<close>

definition plain_id :: "pyval \<Rightarrow> bool" where
  "plain_id v = (case v of PyNone \<Rightarrow> True | PyInt i \<Rightarrow> True | _ \<Rightarrow> False)"

text \<open>Projections of a list of effects: the requests sent, the sleeps, the scheduled releases.\<close>

fun sends :: "event list \<Rightarrow> (string \<times> string \<times> (string \<times> string) list) list" where
  "sends [] = []"
| "sends (Send m u h # es) = (m, u, h) # sends es"
| "sends (e # es) = sends es"

fun sleeps :: "event list \<Rightarrow> rat list" where
  "sleeps [] = []"
| "sleeps (Sleep d # es) = d # sleeps es"
| "sleeps (e # es) = sleeps es"

fun deferrals :: "event list \<Rightarrow> (rat \<times> string) list" where
  "deferrals [] = []"
| "deferrals (CallLater d b # es) = (d, b) # deferrals es"
| "deferrals (e # es) = deferrals es"

fun lock_releases :: "event list \<Rightarrow> string list" where
  "lock_releases [] = []"
| "lock_releases (ReleaseLock b # es) = b # lock_releases es"
| "lock_releases (e # es) = lock_releases es"

subsection \<open>Sample inputs\<close>

definition dq :: char where
  "dq = CHR 0x22"

definition body_retry_500 :: string where
  "body_retry_500 = ''{'' @ [dq] @ ''retry_after'' @ [dq] @ '': 500}''"

definition body_retry_500_global :: string where
  "body_retry_500_global =
     ''{'' @ [dq] @ ''retry_after'' @ [dq] @ '': 500, '' @ [dq] @ ''global'' @ [dq] @ '': true}''"

text \<open>
  A decoder that knows three texts, and a reset-time header that always reads two seconds.
\<close>

definition sample_lib :: lib where
  "sample_lib =
     \<lparr> loads = (\<lambda>s. if s = ''{}'' then Some (JObj [])
                     else if s = body_retry_500 then Some (JObj [(''retry_after'', JNum 500)])
                     else if s = body_retry_500_global
                       then Some (JObj [(''retry_after'', JNum 500), (''global'', JBool True)])
                     else None),
       parse_ratelimit_header = (\<lambda>r. 2) \<rparr>"

definition fresh_client :: client where
  "fresh_client =
     \<lparr> token = None, bot_token = False, ack_token = None, global_over = True, locks = [] \<rparr>"

definition json_reply :: "int \<Rightarrow> (string \<times> string) list \<Rightarrow> string \<Rightarrow> reply" where
  "json_reply st extra txt =
     Reply \<lparr> status = st, headers = extra @ [(''content-type'', ''application/json'')], body = txt \<rparr>"




text \<open>A server that answers every attempt alike, and one that follows a script.\<close>

definition always :: "reply \<Rightarrow> nat \<Rightarrow> reply" where
  "always rep n = rep"

definition scripted :: "reply list \<Rightarrow> reply \<Rightarrow> nat \<Rightarrow> reply" where
  "scripted reps rep n = (if n < length reps then reps ! n else rep)"

definition users_me :: route where
  "users_me = \<lparr> path = ''/users/@me'', method = ''GET'', url = BASE @ ''/users/@me'',
                 channel = PyNone, channel_id = PyNone, guild_id = PyNone \<rparr>"

subsection \<open>The guard's invariant\<close>



definition guild_bans :: route where
  "guild_bans = \<lparr> path = ''/guilds/{guild_id}/bans'', method = ''GET'',
                   url = BASE @ ''/guilds/7/bans'',
                   channel = PyNone, channel_id = PyNone, guild_id = PyInt 7 \<rparr>"

definition text_channel :: pyval where
  "text_channel = PyObj [(''id'', PyInt 5), (''guild'', PyObj [(''id'', PyInt 9)])]"

definition channel_pins :: route where
  "channel_pins = \<lparr> path = ''/channels/{channel.id}/pins'', method = ''GET'',
                   url = BASE @ ''/channels/5/pins'',
                   channel = text_channel, channel_id = PyInt 5, guild_id = PyNone \<rparr>"

definition logged_in :: client where
  "logged_in =
     \<lparr> token = Some ''old-token'', bot_token = True, ack_token = Some PyNone,
       global_over = True, locks = [] \<rparr>"

subsection \<open>Several calls on one event loop\<close>

text \<open>
  \<^verbatim>\<open>asyncio\<close> runs the calls of \<^verbatim>\<open>request\<close> as coroutines on one loop. A call performs its
  effects in program order; between two of them other calls and timer callbacks may run. A
  task is a call that has been started: its bucket key, the effects it has still to perform,
  the time until which it sleeps, and whether a request of it is under way (sent, the response
  not yet handled).
\<close>

record task =
  bkt :: string
  todo :: "event list"
  wake :: rat
  in_flight :: bool

text \<open>
  The loop: the clock, the event \<^verbatim>\<open>_global_over\<close>, the bucket locks that are held, the
  pending \<^verbatim>\<open>call_later\<close> entries (due time and the bucket whose lock they release), and the
  tasks.
\<close>

record loop =
  now :: rat
  global_set :: bool
  held :: "string list"
  timers :: "(rat \<times> string) list"
  tasks :: "task list"

text \<open>
  What a task's next effect does to the loop, and when it can happen: \<^verbatim>\<open>wait()\<close> returns
  only while the event is set, a lock is acquired only while it is free, a sleep sets the time
  at which the task goes on, \<^verbatim>\<open>call_later\<close> enters a timer.
\<close>

fun effect :: "event \<Rightarrow> task \<Rightarrow> loop \<Rightarrow> (task \<times> loop) option" where
  "effect WaitGlobal t s = (if global_set s then Some (t, s) else None)"
| "effect (Acquire b) t s = (if b \<in> set (held s) then None else Some (t, s\<lparr>held := b # held s\<rparr>))"
| "effect (Send m u h) t s = Some (t\<lparr>in_flight := True\<rparr>, s)"
| "effect (CallLater d b) t s = Some (t, s\<lparr>timers := timers s @ [(now s + d, b)]\<rparr>)"
| "effect ClearGlobal t s = Some (t, s\<lparr>global_set := False\<rparr>)"
| "effect SetGlobal t s = Some (t, s\<lparr>global_set := True\<rparr>)"
| "effect (Sleep d) t s = Some (t\<lparr>wake := now s + d\<rparr>, s)"
| "effect ReleaseResponse t s = Some (t, s)"
| "effect (ReleaseLock b) t s = Some (t, s\<lparr>held := remove1 b (held s)\<rparr>)"

text \<open>
  The moves of the loop. \<open>Start\<close> begins a call of \<^verbatim>\<open>request\<close>: the call looks at
  \<^verbatim>\<open>_global_over\<close> as it is now, and its effects are those of \<open>request\<close>. \<open>Step i\<close> lets
  task \<open>i\<close> perform its next effect, \<open>Fire j\<close> runs the timer callback \<open>j\<close> once it is due,
  and \<open>Advance\<close> lets time pass.
\<close>

datatype action =
    Start route "rat option" "nat \<Rightarrow> reply"
  | Step nat
  | Fire nat
  | Advance rat

definition step :: "lib \<Rightarrow> client \<Rightarrow> kwargs \<Rightarrow> action \<Rightarrow> loop \<Rightarrow> loop option" where
  "step l c kw a s =
     (case a of
        Start rt bp srv \<Rightarrow>
          Some (s\<lparr>tasks := tasks s @
                  [\<lparr> bkt = bucket rt,
                     todo = fst (snd (request l (c\<lparr>global_over := global_set s\<rparr>) rt bp kw srv)),
                     wake = now s, in_flight = False \<rparr>]\<rparr>)
      | Step i \<Rightarrow>
          if i < length (tasks s) then
            (let t = tasks s ! i in
             case todo t of
               [] \<Rightarrow> None
             | e # es \<Rightarrow>
                 if now s < wake t then None
                 else (case effect e (t\<lparr>todo := es, in_flight := False\<rparr>) s of
                         None \<Rightarrow> None
                       | Some (t', s') \<Rightarrow> Some (s'\<lparr>tasks := (tasks s')[i := t']\<rparr>)))
          else None
      | Fire j \<Rightarrow>
          if j < length (timers s) then
            (let (due, b) = timers s ! j in
             if now s < due then None
             else Some (s\<lparr>held := remove1 b (held s),
                          timers := take j (timers s) @ drop (Suc j) (timers s)\<rparr>))
          else None
      | Advance t \<Rightarrow> if now s \<le> t then Some (s\<lparr>now := t\<rparr>) else None)"

fun run_loop :: "lib \<Rightarrow> client \<Rightarrow> kwargs \<Rightarrow> action list \<Rightarrow> loop \<Rightarrow> loop option" where
  "run_loop l c kw [] s = Some s"
| "run_loop l c kw (a # as) s =
     (case step l c kw a s of None \<Rightarrow> None | Some s' \<Rightarrow> run_loop l c kw as s')"

text \<open>The number of requests under way for a bucket.\<close>

definition flying :: "string \<Rightarrow> loop \<Rightarrow> nat" where
  "flying b s = length (filter (\<lambda>t. bkt t = b \<and> in_flight t) (tasks s))"

definition idle_loop :: loop where
  "idle_loop = \<lparr> now = 0, global_set = True, held = [], timers = [], tasks = [] \<rparr>"

text \<open>A reaction endpoint, which \<^verbatim>\<open>add_reaction\<close> calls with \<^verbatim>\<open>header_bypass_delay=0.25\<close>.\<close>

definition reaction :: route where
  "reaction = \<lparr> path = ''/channels/{channel.id}/messages/{message_id}/reactions/{emoji}/@me'',
                 method = ''PUT'',
                 url = BASE @ ''/channels/5/messages/8/reactions/x/@me'',
                 channel = text_channel, channel_id = PyInt 5, guild_id = PyNone \<rparr>"

definition exhausted_502 :: reply where
  "exhausted_502 =
     Reply \<lparr> status = 502,
             headers = [(''X-Ratelimit-Remaining'', ''0''), (''content-type'', ''text/html'')],
             body = ''Bad Gateway'' \<rparr>"

text \<open>
  Two calls of the reaction endpoint. The first receives 502 with an exhausted bucket and then
  200; its release is scheduled a quarter of a second ahead, and it sleeps one second before
  its second attempt. The second call is started meanwhile.
\<close>

definition overlap_schedule :: "action list" where
  "overlap_schedule =
     [Start reaction (Some (1 / 4)) (scripted [exhausted_502] (json_reply 200 [] ''{}'')),
      Step 0, Step 0, Step 0, Step 0,
      Start reaction (Some (1 / 4)) (always (json_reply 200 [] ''{}'')),
      Advance (1 / 4), Fire 0, Step 1, Step 1,
      Advance 1, Step 0, Step 0]"


section \<open>Decimal rendering and bucket keys\<close>

declare show_nat.simps [simp del]

lemma of_char_digit_char: "d < 10 \<Longrightarrow> (of_char (digit_char d) :: nat) = 48 + d"
  by (simp add: digit_char_def)

lemma read_nat_show_nat: "read_nat (show_nat n) = n"
proof (induction n rule: show_nat.induct)
  case (1 n)
  show ?case
  proof (cases "n < 10")
    case True
    then show ?thesis
      by (simp add: show_nat.simps [of n] read_nat_def of_char_digit_char)
  next
    case False
    with 1 have "read_nat (show_nat (n div 10)) = n div 10" by simp
    with False show ?thesis
      by (simp add: show_nat.simps [of n] read_nat_def of_char_digit_char)
  qed
qed

lemma show_nat_inj: "show_nat m = show_nat n \<Longrightarrow> m = n"
  by (metis read_nat_show_nat)

lemma show_nat_digits: "c \<in> set (show_nat n) \<Longrightarrow> is_digit c"
proof (induction n rule: show_nat.induct)
  case (1 n)
  show ?case
  proof (cases "n < 10")
    case True
    with 1(2) show ?thesis
      by (simp add: show_nat.simps [of n] is_digit_def of_char_digit_char)
  next
    case False
    with 1 show ?thesis
      by (auto simp add: show_nat.simps [of n] is_digit_def of_char_digit_char)
  qed
qed

lemma show_nat_nonempty: "show_nat n \<noteq> []"
  by (simp add: show_nat.simps [of n])

lemma show_int_chars: "c \<in> set (show_int i) \<Longrightarrow> is_digit c \<or> c = CHR ''-''"
  by (auto simp add: show_int_def dest: show_nat_digits split: if_splits)

lemma show_nat_no_minus: "show_nat n \<noteq> CHR ''-'' # s"
proof
  assume "show_nat n = CHR ''-'' # s"
  then have "CHR ''-'' \<in> set (show_nat n)" by simp
  then have "is_digit (CHR ''-'')" by (rule show_nat_digits)
  then show False by (simp add: is_digit_def)
qed

lemma show_int_inj: "show_int i = show_int j \<Longrightarrow> i = j"
  by (auto simp add: show_int_def show_nat_no_minus show_nat_no_minus [symmetric]
      dest!: show_nat_inj split: if_splits)

lemma py_str_plain_no_colon: "plain_id v \<Longrightarrow> CHR '':'' \<notin> set (py_str v)"
  by (cases v) (auto simp add: plain_id_def is_digit_def dest!: show_int_chars)

lemma show_int_not_None: "show_int i \<noteq> ''None''"
proof
  assume "show_int i = ''None''"
  then have "CHR ''N'' \<in> set (show_int i)" by simp
  then show False by (auto simp add: is_digit_def dest!: show_int_chars)
qed

lemma py_str_plain_inj: "plain_id v \<Longrightarrow> plain_id w \<Longrightarrow> py_str v = py_str w \<Longrightarrow> v = w"
  by (cases v; cases w)
    (auto simp add: plain_id_def show_int_not_None show_int_not_None [symmetric] dest: show_int_inj)

lemma colon_split:
  "CHR '':'' \<notin> set a \<Longrightarrow> CHR '':'' \<notin> set b \<Longrightarrow> a @ CHR '':'' # x = b @ CHR '':'' # y
     \<Longrightarrow> a = b \<and> x = y"
proof (induction a arbitrary: b)
  case Nil
  then show ?case by (cases b) auto
next
  case (Cons c a)
  then show ?case by (cases b) auto
qed

lemma bucket_eq_plain:
  assumes m: "CHR '':'' \<notin> set (method r1)" "CHR '':'' \<notin> set (method r2)"
    and p: "plain_id (channel_id r1)" "plain_id (guild_id r1)" "plain_id (channel_id r2)" "plain_id (guild_id r2)"
    and eq: "bucket r1 = bucket r2"
  shows "channel_id r1 = channel_id r2 \<and> guild_id r1 = guild_id r2"
proof -
  let ?t1 = "py_str (channel_id r1) @ CHR '':'' # py_str (guild_id r1) @ CHR '':'' # path r1"
  let ?t2 = "py_str (channel_id r2) @ CHR '':'' # py_str (guild_id r2) @ CHR '':'' # path r2"
  from eq have "method r1 @ CHR '':'' # ?t1 = method r2 @ CHR '':'' # ?t2"
    by (simp add: bucket_def)
  with m have t: "?t1 = ?t2" by (blast dest: colon_split)
  from p have nc: "CHR '':'' \<notin> set (py_str (channel_id r1))" "CHR '':'' \<notin> set (py_str (channel_id r2))"
    "CHR '':'' \<notin> set (py_str (guild_id r1))" "CHR '':'' \<notin> set (py_str (guild_id r2))"
    by (simp_all add: py_str_plain_no_colon)
  from colon_split [OF nc(1) nc(2) t]
  have c: "py_str (channel_id r1) = py_str (channel_id r2)"
    and t': "py_str (guild_id r1) @ CHR '':'' # path r1 = py_str (guild_id r2) @ CHR '':'' # path r2"
    by simp_all
  from colon_split [OF nc(3) nc(4) t'] have g: "py_str (guild_id r1) = py_str (guild_id r2)" by simp
  from c g p show ?thesis by (simp add: py_str_plain_inj)
qed

lemma dict_get_update_other: "k \<noteq> k' \<Longrightarrow> dict_get (AList.update k v d) k' = dict_get d k'"
  by (simp add: dict_get_def update_conv')

lemma dict_get_update_same: "dict_get (AList.update k v d) k = v"
  by (simp add: dict_get_def update_conv')

lemma Route_init_fields:
  assumes "Route_init m p ps = Inr r"
  shows "method r = m \<and> path r = p
    \<and> channel_id r = (case getattr (dict_get ps ''channel'') ''id'' of
                        Inl e \<Rightarrow> dict_get ps ''channel_id'' | Inr i \<Rightarrow> i)
    \<and> guild_id r = dict_get ps ''guild_id''"
  using assms
  by (auto simp add: Route_init_def Let_def dict_get_update_other dict_get_update_same
      split: sum.splits if_splits)


section \<open>C1: the bucket key\<close>

text \<open>
  Claim C1, as the code has it. The bucket key of a constructed route is
  \<^verbatim>\<open>method:channel_id:guild_id:path\<close>, built from the unresolved path template and the two
  major parameters; \<^verbatim>\<open>channel_id\<close> is the \<^verbatim>\<open>id\<close> of the \<^verbatim>\<open>channel\<close> argument when it has
  one and the \<^verbatim>\<open>channel_id\<close> argument otherwise. An absent parameter is rendered as the text
  \<^verbatim>\<open>None\<close>. Routes that agree on method, path template, \<^verbatim>\<open>channel_id\<close> and
  \<^verbatim>\<open>guild_id\<close> have the same key whatever their resolved URL and channel object are. Routes
  whose methods contain no colon and whose major parameters are absent or integers have
  different keys as soon as they differ in \<^verbatim>\<open>channel_id\<close> or \<^verbatim>\<open>guild_id\<close>.
\<close>

theorem bucket_key_major_parameters:
  "(Route_init m p ps = Inr r \<longrightarrow>
      bucket r = m @ '':'' @ py_str (channel_id r) @ '':'' @ py_str (guild_id r) @ '':'' @ p
      \<and> channel_id r = (case getattr (dict_get ps ''channel'') ''id'' of
                          Inl e \<Rightarrow> dict_get ps ''channel_id'' | Inr i \<Rightarrow> i)
      \<and> guild_id r = dict_get ps ''guild_id'')
   \<and> py_str PyNone = ''None''
   \<and> (method r1 = method r2 \<and> path r1 = path r2 \<and> channel_id r1 = channel_id r2
        \<and> guild_id r1 = guild_id r2 \<longrightarrow> bucket r1 = bucket r2)
   \<and> (CHR '':'' \<notin> set (method r1) \<and> CHR '':'' \<notin> set (method r2)
        \<and> plain_id (channel_id r1) \<and> plain_id (guild_id r1)
        \<and> plain_id (channel_id r2) \<and> plain_id (guild_id r2)
        \<and> (channel_id r1 \<noteq> channel_id r2 \<or> guild_id r1 \<noteq> guild_id r2)
      \<longrightarrow> bucket r1 \<noteq> bucket r2)"
proof (intro conjI impI)
  assume "Route_init m p ps = Inr r"
  from Route_init_fields [OF this]
  show "bucket r = m @ '':'' @ py_str (channel_id r) @ '':'' @ py_str (guild_id r) @ '':'' @ p"
    and "channel_id r = (case getattr (dict_get ps ''channel'') ''id'' of
                          Inl e \<Rightarrow> dict_get ps ''channel_id'' | Inr i \<Rightarrow> i)"
    and "guild_id r = dict_get ps ''guild_id''"
    by (simp_all add: bucket_def)
next
  show "py_str PyNone = ''None''" by simp
next
  assume "method r1 = method r2 \<and> path r1 = path r2 \<and> channel_id r1 = channel_id r2
        \<and> guild_id r1 = guild_id r2"
  then show "bucket r1 = bucket r2" by (simp add: bucket_def)
next
  assume h: "CHR '':'' \<notin> set (method r1) \<and> CHR '':'' \<notin> set (method r2)
        \<and> plain_id (channel_id r1) \<and> plain_id (guild_id r1)
        \<and> plain_id (channel_id r2) \<and> plain_id (guild_id r2)
        \<and> (channel_id r1 \<noteq> channel_id r2 \<or> guild_id r1 \<noteq> guild_id r2)"
  show "bucket r1 \<noteq> bucket r2"
  proof
    assume "bucket r1 = bucket r2"
    with h have "channel_id r1 = channel_id r2 \<and> guild_id r1 = guild_id r2"
      by (intro bucket_eq_plain) simp_all
    with h show False by blast
  qed
qed

text \<open>
  The theorem at the routes of two channels, and at two routes of one channel that differ in
  the resolved URL only.
\<close>

theorem bucket_key_major_parameters_witness:
  "Route_init ''POST'' ''/channels/{channel.id}/messages''
       [(''channel'', PyObj [(''id'', PyInt 111)])]
     = Inr \<lparr> path = ''/channels/{channel.id}/messages'', method = ''POST'',
             url = ''https://discordapp.com/api/v7/channels/111/messages'',
             channel = PyObj [(''id'', PyInt 111)], channel_id = PyInt 111, guild_id = PyNone \<rparr>
   \<and> bucket \<lparr> path = ''/channels/{channel.id}/messages'', method = ''POST'',
             url = ''https://discordapp.com/api/v7/channels/111/messages'',
             channel = PyObj [(''id'', PyInt 111)], channel_id = PyInt 111, guild_id = PyNone \<rparr>
       = ''POST:111:None:/channels/{channel.id}/messages''
   \<and> bucket \<lparr> path = ''/channels/{channel.id}/messages'', method = ''POST'',
             url = ''https://discordapp.com/api/v7/channels/111/messages'',
             channel = PyObj [(''id'', PyInt 111)], channel_id = PyInt 111, guild_id = PyNone \<rparr>
       = bucket \<lparr> path = ''/channels/{channel.id}/messages'', method = ''POST'',
             url = ''https://discordapp.com/api/v7/channels/111/messages?limit=5'',
             channel = PyNone, channel_id = PyInt 111, guild_id = PyNone \<rparr>
   \<and> bucket \<lparr> path = ''/channels/{channel.id}/messages'', method = ''POST'',
             url = ''https://discordapp.com/api/v7/channels/111/messages'',
             channel = PyObj [(''id'', PyInt 111)], channel_id = PyInt 111, guild_id = PyNone \<rparr>
       \<noteq> bucket \<lparr> path = ''/channels/{channel.id}/messages'', method = ''POST'',
             url = ''https://discordapp.com/api/v7/channels/222/messages'',
             channel = PyObj [(''id'', PyInt 222)], channel_id = PyInt 222, guild_id = PyNone \<rparr>"
proof -
  let ?r1 = "\<lparr> path = ''/channels/{channel.id}/messages'', method = ''POST'',
             url = ''https://discordapp.com/api/v7/channels/111/messages'',
             channel = PyObj [(''id'', PyInt 111)], channel_id = PyInt 111, guild_id = PyNone \<rparr>"
  let ?r1' = "\<lparr> path = ''/channels/{channel.id}/messages'', method = ''POST'',
             url = ''https://discordapp.com/api/v7/channels/111/messages?limit=5'',
             channel = PyNone, channel_id = PyInt 111, guild_id = PyNone \<rparr>"
  let ?r2 = "\<lparr> path = ''/channels/{channel.id}/messages'', method = ''POST'',
             url = ''https://discordapp.com/api/v7/channels/222/messages'',
             channel = PyObj [(''id'', PyInt 222)], channel_id = PyInt 222, guild_id = PyNone \<rparr>"
  have init: "Route_init ''POST'' ''/channels/{channel.id}/messages''
       [(''channel'', PyObj [(''id'', PyInt 111)])] = Inr ?r1"
    by code_simp
  have s111: "show_int 111 = ''111''" by code_simp
  have a: "bucket ?r1 = ''POST:111:None:/channels/{channel.id}/messages''"
    using bucket_key_major_parameters
      [of "''POST''" "''/channels/{channel.id}/messages''"
          "[(''channel'', PyObj [(''id'', PyInt 111)])]" ?r1 ?r1 ?r1] init
    by (simp add: s111)
  have b: "bucket ?r1 = bucket ?r1'"
    using bucket_key_major_parameters
      [of "''POST''" "''/channels/{channel.id}/messages''"
          "[(''channel'', PyObj [(''id'', PyInt 111)])]" ?r1 ?r1 ?r1']
    by simp
  have c: "bucket ?r1 \<noteq> bucket ?r2"
    using bucket_key_major_parameters
      [of "''POST''" "''/channels/{channel.id}/messages''"
          "[(''channel'', PyObj [(''id'', PyInt 111)])]" ?r1 ?r1 ?r2]
    by (simp add: plain_id_def)
  from init a b c show ?thesis by blast
qed

text \<open>
  C1 as it is worded does not hold. A route without major parameters has the key
  \<^verbatim>\<open>GET:None:None:/users/@me\<close>, not one with empty fields; and a guild id given once as the
  integer \<^verbatim>\<open>1\<close> and once as the string \<^verbatim>\<open>'1'\<close> yields two routes that differ in
  \<^verbatim>\<open>guild_id\<close> and share a key.
\<close>

theorem bucket_key_counterexample:
  "map_sum id bucket (Route_init ''GET'' ''/users/@me'' []) = Inr ''GET:None:None:/users/@me''
   \<and> map_sum id bucket (Route_init ''GET'' ''/users/@me'' []) \<noteq> Inr ''GET:::/users/@me''
   \<and> map_sum id guild_id (Route_init ''GET'' ''/guilds/{guild_id}'' [(''guild_id'', PyInt 1)])
       = Inr (PyInt 1)
   \<and> map_sum id guild_id (Route_init ''GET'' ''/guilds/{guild_id}'' [(''guild_id'', PyStr ''1'')])
       = Inr (PyStr ''1'')
   \<and> map_sum id bucket (Route_init ''GET'' ''/guilds/{guild_id}'' [(''guild_id'', PyInt 1)])
       = Inr ''GET:None:1:/guilds/{guild_id}''
   \<and> map_sum id bucket (Route_init ''GET'' ''/guilds/{guild_id}'' [(''guild_id'', PyStr ''1'')])
       = Inr ''GET:None:1:/guilds/{guild_id}''"
  by code_simp


section \<open>Effects of one attempt\<close>

lemma sends_append: "sends (xs @ ys) = sends xs @ sends ys"
  by (induction xs rule: sends.induct) simp_all

lemma sleeps_append: "sleeps (xs @ ys) = sleeps xs @ sleeps ys"
  by (induction xs rule: sleeps.induct) simp_all

lemma deferrals_append: "deferrals (xs @ ys) = deferrals xs @ deferrals ys"
  by (induction xs rule: deferrals.induct) simp_all

lemma lock_releases_append: "lock_releases (xs @ ys) = lock_releases xs @ lock_releases ys"
  by (induction xs rule: lock_releases.induct) simp_all

lemmas projections_append = sends_append sleeps_append deferrals_append lock_releases_append

lemma events_emit: "events (emit e s) = events s @ [e]"
  and unlock_emit: "unlock (emit e s) = unlock s"
  and over_emit: "over (emit e s) = over s"
  by (simp_all add: emit_def)


lemma attempt_undecoded:
  "json_or_text l r = Inl e \<Longrightarrow>
   attempt l b m u h bp k (Reply r) s
     = (emit ReleaseResponse (emit (Send m u h) s), Return (Inl e))"
  by (simp add: attempt_def)

text \<open>The state after the rate-limit header has been looked at.\<close>

lemma attempt_sends:
  "sends (events (fst (attempt l b m u h bp k rep s))) = sends (events s) @ [(m, u, h)]"
  by (simp add: attempt_def Let_def events_emit projections_append MaybeUnlock_defer_def
      split: reply.splits sum.splits)






text \<open>Whether an attempt leaves the loop does not depend on the state it starts in.\<close>

lemma attempt_outcome_state:
  "snd (attempt l b m u h bp k rep s) = snd (attempt l b' m' u' h' bp' k' rep s')"
  by (auto simp add: attempt_def Let_def split: reply.splits sum.splits)




lemma attempt_terminal:
  assumes "json_or_text l r = Inr data" and "status r \<noteq> 429" and "status r \<noteq> 500" and "status r \<noteq> 502"
  shows "snd (attempt l b m u h bp k (Reply r) s)
     = Return (if 200 \<le> status r \<and> status r < 300 then Inr data
               else if status r = 403 then Inl (Forbidden r data)
               else if status r = 404 then Inl (NotFound r data)
               else Inl (HTTPException r data))"
    and "sleeps (events (fst (attempt l b m u h bp k (Reply r) s))) = sleeps (events s)"
  using assms
  by (auto simp add: attempt_def Let_def events_emit projections_append MaybeUnlock_defer_def)

section \<open>The loop\<close>

lemma for_tries_Return:
  "snd (attempt l b m u h bp k (srv k) s) = Return res \<Longrightarrow>
   for_tries l b m u h bp srv (k # rest) prev s = (fst (attempt l b m u h bp k (srv k) s), res)"
  by (cases "attempt l b m u h bp k (srv k) s") simp

lemma for_tries_Continue:
  "snd (attempt l b m u h bp k (srv k) s) = Continue r data \<Longrightarrow>
   for_tries l b m u h bp srv (k # rest) prev s
     = for_tries l b m u h bp srv rest (Some (r, data)) (fst (attempt l b m u h bp k (srv k) s))"
  by (cases "attempt l b m u h bp k (srv k) s") simp

declare for_tries.simps(2) [simp del]


lemma for_tries_sends:
  "\<exists>n \<le> length ks. sends (events (fst (for_tries l b m u h bp srv ks prev s)))
      = sends (events s) @ replicate n (m, u, h)"
proof (induction ks arbitrary: prev s)
  case Nil
  show ?case by (simp split: option.splits prod.splits)
next
  case (Cons k ks)
  show ?case
  proof (cases "snd (attempt l b m u h bp k (srv k) s)")
    case (Return res)
    then have "sends (events (fst (for_tries l b m u h bp srv (k # ks) prev s)))
      = sends (events s) @ replicate 1 (m, u, h)"
      by (simp add: for_tries_Return attempt_sends)
    then show ?thesis by (intro exI [of _ 1]) simp
  next
    case (Continue r data)
    from Cons.IH [of "Some (r, data)" "fst (attempt l b m u h bp k (srv k) s)"]
    obtain n where n: "n \<le> length ks"
      "sends (events (fst (for_tries l b m u h bp srv ks (Some (r, data))
          (fst (attempt l b m u h bp k (srv k) s)))))
        = sends (events (fst (attempt l b m u h bp k (srv k) s))) @ replicate n (m, u, h)"
      by blast
    with Continue have "sends (events (fst (for_tries l b m u h bp srv (k # ks) prev s)))
      = sends (events s) @ replicate (Suc n) (m, u, h)"
      by (simp add: for_tries_Continue attempt_sends)
    with n(1) show ?thesis by (intro exI [of _ "Suc n"]) simp
  qed
qed




lemma range_5: "[0..<5] = [0, 1, 2, 3, 4]"
  by (simp add: upt_rec)

section \<open>The sample routes\<close>

text \<open>The sample routes are the routes that \<^verbatim>\<open>Route.__init__\<close> constructs.\<close>

lemma sample_routes:
  "Route_init ''GET'' ''/users/@me'' [] = Inr users_me"
  "Route_init ''GET'' ''/guilds/{guild_id}/bans'' [(''guild_id'', PyInt 7)] = Inr guild_bans"
  "Route_init ''GET'' ''/channels/{channel.id}/pins'' [(''channel'', text_channel)] = Inr channel_pins"
  "Route_init ''PUT'' ''/channels/{channel.id}/messages/{message_id}/reactions/{emoji}/@me''
     [(''channel'', text_channel), (''message_id'', PyInt 8), (''emoji'', PyStr ''x'')] = Inr reaction"
  by code_simp+

section \<open>C10: the referer header\<close>

lemma for_tries_sends_first:
  "ks \<noteq> [] \<Longrightarrow> \<exists>n. sends (events (fst (for_tries l b m u h bp srv ks prev s)))
      = sends (events s) @ (m, u, h) # replicate n (m, u, h)"
proof (cases ks)
  case Nil
  moreover assume "ks \<noteq> []"
  ultimately show ?thesis by simp
next
  case (Cons k ks')
  show ?thesis
  proof (cases "snd (attempt l b m u h bp k (srv k) s)")
    case (Return res)
    with Cons show ?thesis by (simp add: for_tries_Return attempt_sends)
  next
    case (Continue r data)
    from for_tries_sends [of ks' l b m u h bp srv "Some (r, data)" "fst (attempt l b m u h bp k (srv k) s)"]
    obtain n where "sends (events (fst (for_tries l b m u h bp srv ks' (Some (r, data))
          (fst (attempt l b m u h bp k (srv k) s)))))
        = sends (events (fst (attempt l b m u h bp k (srv k) s))) @ replicate n (m, u, h)"
      by blast
    with Continue Cons show ?thesis by (simp add: for_tries_Continue attempt_sends)
  qed
qed

lemma referer_create_headers:
  "map_of (create_headers chan) ''referer''
     = Some (case getattr chan ''guild'' of
               Inl e \<Rightarrow> ''https://canary.discordapp.com/channels/@me''
             | Inr g \<Rightarrow>
                (case getattr g ''id'' of
                   Inl e \<Rightarrow> ''https://canary.discordapp.com/channels/@me''
                 | Inr gid \<Rightarrow>
                    (case getattr chan ''id'' of
                       Inl e \<Rightarrow> ''https://canary.discordapp.com/channels/@me''
                     | Inr cid \<Rightarrow> ''https://canary.discordapp.com/channels/''
                                     @ py_str gid @ ''/'' @ py_str cid)))"
  by (simp add: create_headers_def header_dict_def guild_name_def split: sum.splits)

lemma referer_request_headers:
  "map_of (request_headers c chan kw) ''referer'' = map_of (create_headers chan) ''referer''"
  by (simp add: request_headers_def Let_def update_conv' split: option.splits)

lemma request_headers_locks:
  "request_headers (c\<lparr>locks := ls\<rparr>) chan kw = request_headers c chan kw"
  by (auto simp add: request_headers_def Let_def split: option.splits)

lemma request_sends:
  assumes "request l c rt bp kw srv = (c', evs, res)"
  shows "\<exists>n. sends evs = replicate (Suc n) (method rt, url rt, request_headers c (channel rt) kw)"
proof -
  let ?h = "request_headers c (channel rt) kw"
  let ?s0 = "\<lparr>over = True, unlock = True,
              events = (if \<not> global_over c then [WaitGlobal] else []) @ [Acquire (bucket rt)]\<rparr>"
  let ?f = "for_tries l (bucket rt) (method rt) (url rt) ?h bp srv [0..<5] None ?s0"
  have ne: "[0..<5] \<noteq> ([] :: nat list)" by simp
  have s0: "sends (events ?s0) = []" by simp
  from for_tries_sends_first [OF ne, of l "bucket rt" "method rt" "url rt" ?h bp srv None ?s0]
  obtain n where "sends (events (fst ?f))
      = sends (events ?s0) @ (method rt, url rt, ?h) # replicate n (method rt, url rt, ?h)"
    by blast
  with s0 have n: "sends (events (fst ?f)) = replicate (Suc n) (method rt, url rt, ?h)"
    by simp
  have "evs = events (MaybeUnlock_exit (bucket rt) (fst ?f))"
    using assms
    by (auto simp add: request_def Let_def request_headers_locks split: prod.splits if_splits)
  then have "sends evs = sends (events (fst ?f))"
    by (simp add: MaybeUnlock_exit_def events_emit projections_append)
  with n show ?thesis by (intro exI [of _ n]) simp
qed

text \<open>
  Claim C10. Every call of \<^verbatim>\<open>request\<close> sends at least one request, and each request it
  sends carries a \<^verbatim>\<open>referer\<close> header. The header is the channel URL
  \<^verbatim>\<open>https://canary.discordapp.com/channels/{channel.guild.id}/{channel.id}\<close> when the route's
  channel has a guild with an id and an id of its own, and the fallback
  \<^verbatim>\<open>https://canary.discordapp.com/channels/@me\<close> in every other case: the guild-only branch
  reads the unbound name \<^verbatim>\<open>guild\<close> and never produces a header. In particular a route
  without a channel, such as one that carries only a \<^verbatim>\<open>guild_id\<close>, gets the fallback.
\<close>

theorem referer_channel_or_me:
  assumes "request l c rt bp kw srv = (c', evs, res)"
  shows "sends evs \<noteq> []
    \<and> (\<forall>m u h. (m, u, h) \<in> set (sends evs) \<longrightarrow>
          (\<forall>g gid cid. getattr (channel rt) ''guild'' = Inr g \<and> getattr g ''id'' = Inr gid
                \<and> getattr (channel rt) ''id'' = Inr cid
             \<longrightarrow> map_of h ''referer''
                   = Some (''https://canary.discordapp.com/channels/'' @ py_str gid @ ''/'' @ py_str cid))
        \<and> ((\<nexists>g gid cid. getattr (channel rt) ''guild'' = Inr g \<and> getattr g ''id'' = Inr gid
                \<and> getattr (channel rt) ''id'' = Inr cid)
             \<longrightarrow> map_of h ''referer'' = Some ''https://canary.discordapp.com/channels/@me'')
        \<and> (channel rt = PyNone
             \<longrightarrow> map_of h ''referer'' = Some ''https://canary.discordapp.com/channels/@me''))"
proof -
  from request_sends [OF assms]
  obtain n where n: "sends evs = replicate (Suc n) (method rt, url rt, request_headers c (channel rt) kw)"
    by blast
  then have ne: "sends evs \<noteq> []" by simp
  have ref: "map_of h ''referer'' = map_of (create_headers (channel rt)) ''referer''"
    if "(m, u, h) \<in> set (sends evs)" for m u h
    using that n by (auto simp add: referer_request_headers)
  show ?thesis
    using ne ref
    by (auto simp add: referer_create_headers split: sum.splits)
qed

text \<open>The theorem at a route with only a guild id and at a route of a guild channel.\<close>

theorem referer_channel_or_me_witness:
  "sends (fst (snd (request sample_lib fresh_client guild_bans None no_kwargs
                      (always (json_reply 200 [] ''{}'')))))
     = [(''GET'', ''https://discordapp.com/api/v7/guilds/7/bans'',
         header_dict ''https://canary.discordapp.com/channels/@me'')]
   \<and> sends (fst (snd (request sample_lib fresh_client channel_pins None no_kwargs
                      (always (json_reply 200 [] ''{}'')))))
     = [(''GET'', ''https://discordapp.com/api/v7/channels/5/pins'',
         header_dict ''https://canary.discordapp.com/channels/9/5'')]
   \<and> map_of (header_dict ''https://canary.discordapp.com/channels/@me'') ''referer''
     = Some ''https://canary.discordapp.com/channels/@me''
   \<and> map_of (header_dict ''https://canary.discordapp.com/channels/9/5'') ''referer''
     = Some ''https://canary.discordapp.com/channels/9/5''"
proof -
  let ?q1 = "request sample_lib fresh_client guild_bans None no_kwargs (always (json_reply 200 [] ''{}''))"
  let ?q2 = "request sample_lib fresh_client channel_pins None no_kwargs (always (json_reply 200 [] ''{}''))"
  have s1: "sends (fst (snd ?q1))
     = [(''GET'', ''https://discordapp.com/api/v7/guilds/7/bans'',
         header_dict ''https://canary.discordapp.com/channels/@me'')]"
    by code_simp
  have s2: "sends (fst (snd ?q2))
     = [(''GET'', ''https://discordapp.com/api/v7/channels/5/pins'',
         header_dict ''https://canary.discordapp.com/channels/9/5'')]"
    by code_simp
  have p1: "?q1 = (fst ?q1, fst (snd ?q1), snd (snd ?q1))" by simp
  have p2: "?q2 = (fst ?q2, fst (snd ?q2), snd (snd ?q2))" by simp
  have c1: "channel guild_bans = PyNone" by (simp add: guild_bans_def)
  have g2: "getattr (channel channel_pins) ''guild'' = Inr (PyObj [(''id'', PyInt 9)])"
    "getattr (PyObj [(''id'', PyInt 9)]) ''id'' = Inr (PyInt 9)"
    "getattr (channel channel_pins) ''id'' = Inr (PyInt 5)"
    by (simp_all add: channel_pins_def text_channel_def)
  have n9: "py_str (PyInt 9) = ''9''" and n5: "py_str (PyInt 5) = ''5''" by code_simp+
  from referer_channel_or_me [OF p1] s1 c1
  have r1: "map_of (header_dict ''https://canary.discordapp.com/channels/@me'') ''referer''
     = Some ''https://canary.discordapp.com/channels/@me''"
    by simp
  from referer_channel_or_me [OF p2] s2 g2
  have r2: "map_of (header_dict ''https://canary.discordapp.com/channels/9/5'') ''referer''
     = Some (''https://canary.discordapp.com/channels/'' @ py_str (PyInt 9) @ ''/'' @ py_str (PyInt 5))"
    by simp
  from s1 s2 r1 r2 n9 n5 show ?thesis by simp
qed

section \<open>The parts of a call\<close>

lemma request_parts:
  "request l c rt bp kw srv =
     (let f = for_tries l (bucket rt) (method rt) (url rt) (request_headers c (channel rt) kw) bp srv
                [0..<5] None
                \<lparr>over = True, unlock = True,
                  events = (if \<not> global_over c then [WaitGlobal] else []) @ [Acquire (bucket rt)]\<rparr>
      in ((if bucket rt \<in> set (locks c) then c else c\<lparr>locks := locks c @ [bucket rt]\<rparr>)
            \<lparr>global_over := over (fst f)\<rparr>,
          events (MaybeUnlock_exit (bucket rt) (fst f)),
          snd f))"
  by (auto simp add: request_def Let_def request_headers_locks MaybeUnlock_exit_def over_emit
      split: prod.splits)

lemma request_credentials:
  "token (fst (request l c rt bp kw srv)) = token c"
  "bot_token (fst (request l c rt bp kw srv)) = bot_token c"
  by (simp_all add: request_parts Let_def)

lemma login_route: "Route_init ''GET'' ''/users/@me'' [] = Inr users_me"
  by (simp add: Route_init_def users_me_def dict_get_def)

section \<open>C9: failures of the transport\<close>




section \<open>C8: the login check\<close>

lemma request_first_terminal:
  assumes "srv 0 = Reply r" and "json_or_text l r = Inr data"
    and "status r \<noteq> 429" and "status r \<noteq> 500" and "status r \<noteq> 502"
  shows "snd (snd (request l c rt bp kw srv))
     = (if 200 \<le> status r \<and> status r < 300 then Inr data
        else if status r = 403 then Inl (Forbidden r data)
        else if status r = 404 then Inl (NotFound r data)
        else Inl (HTTPException r data))"
proof -
  let ?s0 = "\<lparr>over = True, unlock = True,
                  events = (if \<not> global_over c then [WaitGlobal] else []) @ [Acquire (bucket rt)]\<rparr>"
  let ?h = "request_headers c (channel rt) kw"
  from assms attempt_terminal(1) [of l r data "bucket rt" "method rt" "url rt" ?h bp 0 ?s0]
  have "snd (attempt l (bucket rt) (method rt) (url rt) ?h bp 0 (srv 0) ?s0)
     = Return (if 200 \<le> status r \<and> status r < 300 then Inr data
               else if status r = 403 then Inl (Forbidden r data)
               else if status r = 404 then Inl (NotFound r data)
               else Inl (HTTPException r data))"
    by simp
  from for_tries_Return [where srv = srv and k = 0, OF this]
  show ?thesis by (simp add: request_parts range_5)
qed

text \<open>
  Claim C8, as the code has it. \<^verbatim>\<open>static_login\<close> sets the new credential and runs the login
  check \<^verbatim>\<open>GET /users/@me\<close>. On success the new credential stays set and the decoded
  payload is returned. When the check fails with an error that \<^verbatim>\<open>except HTTPException\<close>
  catches, the token and the bot flag are restored to their values from before the call, and
  the error is \<^verbatim>\<open>LoginFailure\<close> when its status is 401 and the caught error otherwise; in
  particular a first response with status 401 gives \<^verbatim>\<open>LoginFailure\<close>. Any other error of
  the check propagates and leaves the new credential set.
\<close>

theorem static_login_credentials:
  assumes "static_login l c tok b srv = (c', evs, res)"
    and "request l (HTTPClient_token c (Some tok) b) users_me None no_kwargs srv = (c2, evs2, res2)"
  shows "(\<forall>data. res2 = Inr data \<longrightarrow> res = Inr data \<and> token c' = Some tok \<and> bot_token c' = b)
    \<and> (\<forall>e r. res2 = Inl e \<and> error_response e = Some r \<longrightarrow>
          token c' = token c \<and> bot_token c' = bot_token c
          \<and> res = (if status r = 401 then Inl (LoginFailure ''Improper token has been passed.'')
                   else Inl e))
    \<and> (\<forall>e. res2 = Inl e \<and> error_response e = None \<longrightarrow>
          res = Inl e \<and> token c' = Some tok \<and> bot_token c' = b)
    \<and> (\<forall>r data. srv 0 = Reply r \<and> status r = 401 \<and> json_or_text l r = Inr data \<longrightarrow>
          res = Inl (LoginFailure ''Improper token has been passed.'')
          \<and> token c' = token c \<and> bot_token c' = bot_token c)"
proof -
  let ?c1 = "HTTPClient_token c (Some tok) b"
  from request_credentials [of l ?c1 users_me None no_kwargs srv] assms(2)
  have c2: "token c2 = Some tok" "bot_token c2 = b"
    by (simp_all add: HTTPClient_token_def)
  have sl: "(c', evs, res) =
     (case res2 of
        Inr data \<Rightarrow> (c2, evs2, Inr data)
      | Inl e \<Rightarrow>
         (case error_response e of
            Some r \<Rightarrow>
              (if status r = 401 then
                 (HTTPClient_token c2 (token c) (bot_token c), evs2,
                  Inl (LoginFailure ''Improper token has been passed.''))
               else (HTTPClient_token c2 (token c) (bot_token c), evs2, Inl e))
          | None \<Rightarrow> (c2, evs2, Inl e)))"
    using assms
    by (auto simp add: static_login_def Let_def login_route split: sum.splits option.splits)
  have first: "res2 = Inl (HTTPException r data)"
    if "srv 0 = Reply r" "status r = 401" "json_or_text l r = Inr data" for r data
    using request_first_terminal [of srv r l data ?c1 users_me None no_kwargs] that assms(2)
    by simp
  show ?thesis
  proof (intro conjI allI impI)
    fix data assume "res2 = Inr data"
    with sl c2 show "res = Inr data" "token c' = Some tok" "bot_token c' = b" by simp_all
  next
    fix e r assume "res2 = Inl e \<and> error_response e = Some r"
    with sl show "token c' = token c" "bot_token c' = bot_token c"
      "res = (if status r = 401 then Inl (LoginFailure ''Improper token has been passed.'')
              else Inl e)"
      by (simp_all add: HTTPClient_token_def split: if_splits)
  next
    fix e assume "res2 = Inl e \<and> error_response e = None"
    with sl c2 show "res = Inl e" "token c' = Some tok" "bot_token c' = b" by simp_all
  next
    fix r data assume "srv 0 = Reply r \<and> status r = 401 \<and> json_or_text l r = Inr data"
    then have "res2 = Inl (HTTPException r data)" "status r = 401" using first by simp_all
    with sl show "res = Inl (LoginFailure ''Improper token has been passed.'')"
      "token c' = token c" "bot_token c' = bot_token c"
      by (simp_all add: HTTPClient_token_def)
  qed
qed


text \<open>The theorem at a rejected token (status 401) and at an accepted one.\<close>

theorem static_login_credentials_witness:
  "snd (snd (static_login sample_lib logged_in ''bad-token'' False (always (json_reply 401 [] ''{}''))))
     = Inl (LoginFailure ''Improper token has been passed.'')
   \<and> token (fst (static_login sample_lib logged_in ''bad-token'' False
                   (always (json_reply 401 [] ''{}'')))) = Some ''old-token''
   \<and> bot_token (fst (static_login sample_lib logged_in ''bad-token'' False
                       (always (json_reply 401 [] ''{}''))))
   \<and> snd (snd (static_login sample_lib logged_in ''new-token'' False (always (json_reply 200 [] ''{}''))))
     = Inr (Json (JObj []))
   \<and> token (fst (static_login sample_lib logged_in ''new-token'' False
                   (always (json_reply 200 [] ''{}'')))) = Some ''new-token''
   \<and> \<not> bot_token (fst (static_login sample_lib logged_in ''new-token'' False
                         (always (json_reply 200 [] ''{}''))))"
proof -
  let ?bad = "static_login sample_lib logged_in ''bad-token'' False (always (json_reply 401 [] ''{}''))"
  let ?badq = "request sample_lib (HTTPClient_token logged_in (Some ''bad-token'') False) users_me None
                 no_kwargs (always (json_reply 401 [] ''{}''))"
  let ?good = "static_login sample_lib logged_in ''new-token'' False (always (json_reply 200 [] ''{}''))"
  let ?goodq = "request sample_lib (HTTPClient_token logged_in (Some ''new-token'') False) users_me None
                 no_kwargs (always (json_reply 200 [] ''{}''))"
  let ?r = "\<lparr> status = 401, headers = [(''content-type'', ''application/json'')], body = ''{}'' \<rparr>"
  have r: "always (json_reply 401 [] ''{}'') 0 = Reply ?r \<and> status ?r = 401
           \<and> json_or_text sample_lib ?r = Inr (Json (JObj []))"
    by (simp add: always_def json_reply_def json_or_text_def sample_lib_def)
  have old: "token logged_in = Some ''old-token''" "bot_token logged_in"
    by (simp_all add: logged_in_def)
  have "?bad = (fst ?bad, fst (snd ?bad), snd (snd ?bad))"
    and "?badq = (fst ?badq, fst (snd ?badq), snd (snd ?badq))"
    by simp_all
  from static_login_credentials [OF this] r old
  have bad: "snd (snd ?bad) = Inl (LoginFailure ''Improper token has been passed.'')"
    "token (fst ?bad) = Some ''old-token''" "bot_token (fst ?bad)"
    by simp_all
  have ok: "snd (snd ?goodq) = Inr (Json (JObj []))"
    by code_simp
  have "?good = (fst ?good, fst (snd ?good), snd (snd ?good))"
    and "?goodq = (fst ?goodq, fst (snd ?goodq), snd (snd ?goodq))"
    by simp_all
  from static_login_credentials [OF this] ok
  have good: "snd (snd ?good) = Inr (Json (JObj []))"
    "token (fst ?good) = Some ''new-token''" "\<not> bot_token (fst ?good)"
    by simp_all
  from bad good show ?thesis by simp
qed

text \<open>
  C8 as it is worded does not hold for every failure of the login check: when the transport
  fails, the error is not an \<^verbatim>\<open>HTTPException\<close>, and the client keeps the new token and
  bot flag.
\<close>

theorem static_login_credentials_counterexample:
  "snd (snd (static_login sample_lib logged_in ''bad-token'' False
               (always (Failed ''connection reset''))))
     = Inl (TransportError ''connection reset'')
   \<and> token logged_in = Some ''old-token''
   \<and> bot_token logged_in
   \<and> token (fst (static_login sample_lib logged_in ''bad-token'' False
                   (always (Failed ''connection reset'')))) = Some ''bad-token''
   \<and> \<not> bot_token (fst (static_login sample_lib logged_in ''bad-token'' False
                         (always (Failed ''connection reset''))))"
  by code_simp

section \<open>C6: the outcome of a response\<close>





section \<open>Attempts that reach \<^verbatim>\<open>continue\<close>\<close>





section \<open>C7: transient server errors\<close>





section \<open>C4: rate-limited attempts\<close>



section \<open>C3: deferred release of the bucket lock\<close>





section \<open>C2: one attempt per bucket\<close>

text \<open>
  Claim C2 asks that at most one attempt per bucket key is under way at any instant. The code
  breaks this when an attempt that will be retried defers the release: the first call below
  gets 502 with \<^verbatim>\<open>X-Ratelimit-Remaining: 0\<close>, schedules the release of the lock a quarter of
  a second ahead, and sleeps one second before its second attempt. The timer fires during
  that sleep, a second call of the same bucket acquires the lock and sends its request, and
  the first call then sends its second attempt without holding the lock. Two requests of one
  bucket are under way; before the timer fired, the second call could not take its first step.
\<close>

theorem two_attempts_in_one_bucket:
  "map_option (flying (bucket reaction))
       (run_loop sample_lib fresh_client no_kwargs overlap_schedule idle_loop) = Some 2
   \<and> map_option held (run_loop sample_lib fresh_client no_kwargs overlap_schedule idle_loop)
       = Some [bucket reaction]
   \<and> run_loop sample_lib fresh_client no_kwargs (take 6 overlap_schedule @ [Step 1]) idle_loop = None"
  by code_simp

section \<open>C5: the global rate limit\<close>









end
